theory Spec2Isabelle
  imports Main "HOL-Library.Sublist"
begin

section \<open>JavaScript values\<close>

text \<open>
  The validator of \<^verbatim>\<open>src/index.ts\<close> works on plain JavaScript values: the options
  object handed to the constructor, the operation objects of the OpenAPI document and the
  objects exported by handler modules. They are modelled by one datatype. An object is the
  list of its own properties (the first entry of a name is the property); a function is
  known by a name only. Numbers are the integral ones. The names the program reads from
  the options and from the document are fixed ones, none of them a member of a standard
  prototype, and are read among the own properties (\<open>lookup\<close>, \<open>opt_prop\<close>). A read under
  a name that comes from the document (lines 267 to 273) also finds what the value
  inherits (\<open>get_prop\<close>, below).
\<close>

datatype jsval =
    Undefined
  | Null
  | JBool bool
  | JNum int
  | JStr string
  | JArr "jsval list"
  | JObj "(string \<times> jsval) list"
  | JFun string

text \<open>What \<^verbatim>\<open>if (v)\<close>, \<^verbatim>\<open>!v\<close>, \<^verbatim>\<open>&&\<close> and \<^verbatim>\<open>||\<close> test.\<close>

fun truthy :: "jsval \<Rightarrow> bool" where
  "truthy Undefined = False"
| "truthy Null = False"
| "truthy (JBool b) = b"
| "truthy (JNum n) = (n \<noteq> 0)"
| "truthy (JStr s) = (s \<noteq> [])"
| "truthy (JArr xs) = True"
| "truthy (JObj kvs) = True"
| "truthy (JFun f) = True"

text \<open>\<^verbatim>\<open>v == null\<close> holds of \<^verbatim>\<open>null\<close> and \<^verbatim>\<open>undefined\<close> alone.\<close>

fun eq_null :: "jsval \<Rightarrow> bool" where
  "eq_null Undefined = True"
| "eq_null Null = True"
| "eq_null v = False"

fun typeof :: "jsval \<Rightarrow> string" where
  "typeof Undefined = ''undefined''"
| "typeof Null = ''object''"
| "typeof (JBool b) = ''boolean''"
| "typeof (JNum n) = ''number''"
| "typeof (JStr s) = ''string''"
| "typeof (JArr xs) = ''object''"
| "typeof (JObj kvs) = ''object''"
| "typeof (JFun f) = ''function''"

fun isArray :: "jsval \<Rightarrow> bool" where
  "isArray (JArr xs) = True"
| "isArray v = False"

text \<open>\<^verbatim>\<open>a || b\<close> is \<^verbatim>\<open>a\<close> when \<^verbatim>\<open>a\<close> is truthy, and \<^verbatim>\<open>b\<close> otherwise.\<close>

definition js_or :: "jsval \<Rightarrow> jsval \<Rightarrow> jsval" where
  "js_or a b = (if truthy a then a else b)"

text \<open>Reading a property of an object given by its own properties.\<close>

definition lookup :: "(string \<times> jsval) list \<Rightarrow> string \<Rightarrow> jsval" where
  "lookup kvs k = (case map_of kvs k of None \<Rightarrow> Undefined | Some v \<Rightarrow> v)"

text \<open>
  Errors are values. \<^verbatim>\<open>ono(msg)\<close> and \<^verbatim>\<open>Error(msg)\<close> make an \<open>Error\<close> with that message;
  a \<open>TypeError\<close> is what the runtime throws on a property read of \<^verbatim>\<open>undefined\<close> or
  \<^verbatim>\<open>null\<close> and what \<^verbatim>\<open>path.join\<close> throws on an argument that is no string.
\<close>

datatype js_error = Error string | TypeError string

fun message :: "js_error \<Rightarrow> string" where
  "message (Error m) = m"
| "message (TypeError m) = m"

definition sq :: string where
  "sq = [CHR 0x27]"

text \<open>\<^verbatim>\<open>v?.k\<close> and the destructuring of a truthy \<^verbatim>\<open>v\<close>: never an error.\<close>

fun opt_prop :: "jsval \<Rightarrow> string \<Rightarrow> jsval" where
  "opt_prop (JObj kvs) k = lookup kvs k"
| "opt_prop v k = Undefined"

section \<open>The options and the constructor\<close>

text \<open>
  \<^verbatim>\<open>OpenApiValidatorOpts\<close>: every field is optional, so each is a value that may be
  \<^verbatim>\<open>undefined\<close>. \<^verbatim>\<open>delete options.f\<close> leaves a field that reads \<^verbatim>\<open>undefined\<close>.
  \<open>refParser\<close> is the field \<^verbatim>\<open>$refParser\<close>.
\<close>

record OpenApiValidatorOpts =
  apiSpec :: jsval
  validateResponses :: jsval
  validateRequests :: jsval
  validateSecurity :: jsval
  securityHandlers :: jsval
  ignorePaths :: jsval
  coerceTypes :: jsval
  unknownFormats :: jsval
  fileUploader :: jsval
  multerOpts :: jsval
  refParser :: jsval
  operationHandlers :: jsval
  validateFormats :: jsval

text \<open>
  \<^verbatim>\<open>validateOptions\<close> (lines 283 to 334). It returns nothing and may throw: \<open>None\<close> is
  the normal return. \<^verbatim>\<open>deprecationWarning\<close> (of \<^verbatim>\<open>./middlewares/util\<close>) is taken to print
  its message and return, and is left out.
\<close>

definition unknownFormats_message :: string where
  "unknownFormats_message =
     ''unknownFormats must contain an array of unknownFormats, '' @ sq @ ''ignore'' @ sq @ '' or true''"

definition validateOptions :: "OpenApiValidatorOpts \<Rightarrow> js_error option" where
  "validateOptions options =
    (if \<not> truthy (apiSpec options) then Some (Error ''apiSpec required'')
     else if \<not> eq_null (securityHandlers options) \<and>
             (typeof (securityHandlers options) \<noteq> ''object'' \<or> isArray (securityHandlers options))
       then Some (Error ''securityHandlers must be an object or undefined'')
     else if truthy (securityHandlers options) \<and> truthy (validateSecurity options)
       then Some (Error ''securityHandlers and validateSecurity may not be used together. Use validateSecurities.handlers to specify handlers.'')
     else if \<not> eq_null (multerOpts options) \<and>
             (typeof (multerOpts options) \<noteq> ''object'' \<or> isArray (multerOpts options))
       then Some (Error ''multerOpts must be an object or undefined'')
     else if truthy (multerOpts options) \<and> truthy (fileUploader options)
       then Some (Error ''multerOpts and fileUploader may not be used together. Use fileUploader to specify upload options.'')
     else if typeof (unknownFormats options) = ''boolean''
       then (if \<not> truthy (unknownFormats options) then Some (Error unknownFormats_message)
             else None)
     else if typeof (unknownFormats options) = ''string'' \<and>
             unknownFormats options \<noteq> JStr ''ignore'' \<and> \<not> isArray (unknownFormats options)
       then Some (Error unknownFormats_message)
     else None)"

text \<open>\<^verbatim>\<open>normalizeOptions\<close> (lines 336 to 348) rewrites the two deprecated options.\<close>

definition normalizeOptions :: "OpenApiValidatorOpts \<Rightarrow> OpenApiValidatorOpts" where
  "normalizeOptions options =
    (let o1 = (if truthy (securityHandlers options)
               then options\<lparr>validateSecurity := JObj [(''handlers'', securityHandlers options)],
                            securityHandlers := Undefined\<rparr>
               else options)
     in if truthy (multerOpts o1)
        then o1\<lparr>fileUploader := multerOpts o1, multerOpts := Undefined\<rparr>
        else o1)"

text \<open>
  The defaults of the constructor (lines 37 to 45), one statement each. Line 37 reads
  \<^verbatim>\<open>if (options.unknownFormats == null) options.unknownFormats === true;\<close>: the
  statement after the test is a comparison whose value is dropped, so the options are
  returned as they are.
\<close>

definition default_unknownFormats :: "OpenApiValidatorOpts \<Rightarrow> OpenApiValidatorOpts" where
  "default_unknownFormats options =
    (if eq_null (unknownFormats options)
     then (let dropped = (unknownFormats options = JBool True) in options)
     else options)"

definition apply_defaults :: "OpenApiValidatorOpts \<Rightarrow> OpenApiValidatorOpts" where
  "apply_defaults options =
    (let o1 = default_unknownFormats options;
         o2 = (if eq_null (coerceTypes o1) then o1\<lparr>coerceTypes := JBool True\<rparr> else o1);
         o3 = (if eq_null (validateRequests o2) then o2\<lparr>validateRequests := JBool True\<rparr> else o2);
         o4 = (if eq_null (validateResponses o3) then o3\<lparr>validateResponses := JBool False\<rparr> else o3);
         o5 = (if eq_null (validateSecurity o4) then o4\<lparr>validateSecurity := JBool True\<rparr> else o4);
         o6 = (if eq_null (fileUploader o5) then o5\<lparr>fileUploader := JObj []\<rparr> else o5);
         o7 = (if eq_null (refParser o6) then o6\<lparr>refParser := JObj [(''mode'', JStr ''bundle'')]\<rparr> else o6);
         o8 = (if eq_null (operationHandlers o7) then o7\<lparr>operationHandlers := JBool False\<rparr> else o7)
     in if eq_null (validateFormats o8) then o8\<lparr>validateFormats := JStr ''fast''\<rparr> else o8)"

text \<open>Lines 47 to 61: a plain \<^verbatim>\<open>true\<close> becomes the detailed options object.\<close>

definition expand_booleans :: "OpenApiValidatorOpts \<Rightarrow> OpenApiValidatorOpts" where
  "expand_booleans options =
    (let o1 = (if validateResponses options = JBool True
               then options\<lparr>validateResponses := JObj [(''removeAdditional'', JBool False)]\<rparr>
               else options);
         o2 = (if validateRequests o1 = JBool True
               then o1\<lparr>validateRequests := JObj [(''allowUnknownQueryParameters'', JBool False)]\<rparr>
               else o1)
     in if validateSecurity o2 = JBool True then o2\<lparr>validateSecurity := JObj []\<rparr> else o2)"

text \<open>
  The constructor: the validator it builds has one field, \<^verbatim>\<open>this.options\<close>, so the
  result is that record, or the error thrown by \<^verbatim>\<open>validateOptions\<close>.
\<close>

definition OpenApiValidator :: "OpenApiValidatorOpts \<Rightarrow> js_error + OpenApiValidatorOpts" where
  "OpenApiValidator options =
    (case validateOptions options of
       Some e \<Rightarrow> Inl e
     | None \<Rightarrow> Inr (expand_booleans (apply_defaults (normalizeOptions options))))"

section \<open>The application and the context\<close>

text \<open>
  The Express application is used through three of its methods. The model keeps the
  sequence of the calls made on it: \<^verbatim>\<open>app.param(name, handler)\<close>, \<^verbatim>\<open>app.use(middleware)\<close>
  and \<^verbatim>\<open>app[verb](path, fn)\<close>. A middleware is named by the function of
  \<^verbatim>\<open>./middlewares\<close> that builds it, with the option value that function is given (the
  context, the same in every call, is left out). Building a middleware is taken not to
  throw.
\<close>

datatype middleware =
    applyOpenApiMetadata
  | multipart jsval
  | security jsval
  | RequestValidator jsval
  | ResponseValidator jsval

datatype app_call =
    App_param string
  | App_use middleware
  | App_method string string jsval

text \<open>
  What the code reads of the \<^verbatim>\<open>OpenApiContext\<close>: the document and the routes. The
  \<^verbatim>\<open>schema\<close> of a route is the operation object of the document.
\<close>

record RouteMetadata =
  expressRoute :: string
  "method" :: string
  schema :: "(string \<times> jsval) list"
  pathParams :: "string list"

record OpenApiContext =
  apiDoc :: "(string \<times> jsval) list"
  routes :: "RouteMetadata list"

text \<open>
  What the code takes from the runtime: \<^verbatim>\<open>require\<close>, which returns what a module exports
  or throws, \<^verbatim>\<open>path.join\<close> on two strings, the conversion of a value that is not a
  string to a string (in a template literal and in a property name), the member a value
  has under a name without owning it as a property of the list above (what an object
  inherits from its prototype, the \<^verbatim>\<open>trim\<close> of a string, a property of a function;
  \<^verbatim>\<open>undefined\<close> when there is none), and the message of the \<open>TypeError\<close> thrown on
  reading a name of \<^verbatim>\<open>undefined\<close> or \<^verbatim>\<open>null\<close>.
\<close>

record host =
  require :: "string \<Rightarrow> js_error + jsval"
  path_join :: "string \<Rightarrow> string \<Rightarrow> string"
  js_toString :: "jsval \<Rightarrow> string"
  inherited :: "jsval \<Rightarrow> string \<Rightarrow> jsval"
  cannot_read :: "string \<Rightarrow> jsval \<Rightarrow> string"

text \<open>
  \<^verbatim>\<open>v[k]\<close>: a \<open>TypeError\<close> on \<^verbatim>\<open>undefined\<close> and \<^verbatim>\<open>null\<close>; the own property of an
  object when it has one of that name; otherwise the member the runtime gives the value
  under that name.
\<close>

fun get_prop :: "host \<Rightarrow> jsval \<Rightarrow> string \<Rightarrow> js_error + jsval" where
  "get_prop h Undefined k = Inl (TypeError (cannot_read h k Undefined))"
| "get_prop h Null k = Inl (TypeError (cannot_read h k Null))"
| "get_prop h (JObj kvs) k =
     (case map_of kvs k of Some v \<Rightarrow> Inr v | None \<Rightarrow> Inr (inherited h (JObj kvs) k))"
| "get_prop h v k = Inr (inherited h v k)"

fun to_str :: "host \<Rightarrow> jsval \<Rightarrow> string" where
  "to_str h (JStr s) = s"
| "to_str h v = js_toString h v"

text \<open>\<^verbatim>\<open>path.join(a, b)\<close> throws a \<open>TypeError\<close> on an argument that is not a string.\<close>

fun join_path :: "host \<Rightarrow> jsval \<Rightarrow> jsval \<Rightarrow> js_error + string" where
  "join_path h (JStr a) (JStr b) = Inr (path_join h a b)"
| "join_path h a b = Inl (TypeError ''The path argument must be of type string'')"

text \<open>\<^verbatim>\<open>toLowerCase\<close> on the letters A to Z, which is all an HTTP verb holds.\<close>

definition lower_char :: "char \<Rightarrow> char" where
  "lower_char c =
    (let n = (of_char c :: nat) in if 65 \<le> n \<and> n \<le> 90 then char_of (n + 32) else c)"

definition toLowerCase :: "string \<Rightarrow> string" where
  "toLowerCase s = map lower_char s"

text \<open>\<^verbatim>\<open>lodash.uniq\<close>: the first occurrence of each element, in the order of the list.\<close>

fun uniq_from :: "'a list \<Rightarrow> 'a list \<Rightarrow> 'a list" where
  "uniq_from seen [] = seen"
| "uniq_from seen (x # xs) = uniq_from (if x \<in> set seen then seen else seen @ [x]) xs"

definition uniq :: "'a list \<Rightarrow> 'a list" where
  "uniq xs = uniq_from [] xs"

section \<open>Installing the middlewares\<close>

text \<open>\<^verbatim>\<open>installPathParams\<close> (lines 126 to 158): the first loop, then one call per name.\<close>

fun collect_pathParams :: "string list \<Rightarrow> RouteMetadata list \<Rightarrow> string list" where
  "collect_pathParams acc [] = acc"
| "collect_pathParams acc (r # rs) =
     collect_pathParams (if length (pathParams r) > 0 then acc @ pathParams r else acc) rs"

definition installPathParams :: "app_call list \<Rightarrow> OpenApiContext \<Rightarrow> app_call list" where
  "installPathParams app context =
     app @ map App_param (uniq (collect_pathParams [] (routes context)))"

definition installMetadataMiddleware :: "app_call list \<Rightarrow> OpenApiContext \<Rightarrow> app_call list" where
  "installMetadataMiddleware app context = app @ [App_use applyOpenApiMetadata]"

definition installMultipartMiddleware ::
  "OpenApiValidatorOpts \<Rightarrow> app_call list \<Rightarrow> OpenApiContext \<Rightarrow> app_call list" where
  "installMultipartMiddleware options app context =
     app @ [App_use (multipart (fileUploader options))]"

definition installSecurityMiddleware ::
  "OpenApiValidatorOpts \<Rightarrow> app_call list \<Rightarrow> OpenApiContext \<Rightarrow> app_call list" where
  "installSecurityMiddleware options app context =
     (let securityHandlers = opt_prop (validateSecurity options) ''handlers''
      in app @ [App_use (security securityHandlers)])"

definition installRequestValidationMiddleware ::
  "OpenApiValidatorOpts \<Rightarrow> app_call list \<Rightarrow> OpenApiContext \<Rightarrow> app_call list" where
  "installRequestValidationMiddleware options app context =
     (let allowUnknownQueryParameters =
            opt_prop (validateRequests options) ''allowUnknownQueryParameters''
      in app @ [App_use (RequestValidator (JObj
           [(''nullable'', JBool True),
            (''coerceTypes'', coerceTypes options),
            (''removeAdditional'', JBool False),
            (''useDefaults'', JBool True),
            (''unknownFormats'', unknownFormats options),
            (''allowUnknownQueryParameters'', allowUnknownQueryParameters),
            (''format'', validateFormats options)]))])"

definition installResponseValidationMiddleware ::
  "OpenApiValidatorOpts \<Rightarrow> app_call list \<Rightarrow> OpenApiContext \<Rightarrow> app_call list" where
  "installResponseValidationMiddleware options app context =
     (let removeAdditional = opt_prop (validateResponses options) ''removeAdditional''
      in app @ [App_use (ResponseValidator (JObj
           [(''nullable'', JBool True),
            (''coerceTypes'', coerceTypes options),
            (''removeAdditional'', removeAdditional),
            (''unknownFormats'', unknownFormats options),
            (''format'', validateFormats options)]))])"

subsection \<open>Operation handlers\<close>

text \<open>
  The state of \<^verbatim>\<open>installOperationHandlers\<close> (lines 239 to 281): the local object
  \<^verbatim>\<open>tmpModules\<close> (what \<^verbatim>\<open>tmpModules[p]\<close> reads for each path: the value stored for it,
  and until one is stored what the empty object of line 243 inherits under that name),
  the calls made on the application, and the paths \<^verbatim>\<open>require\<close> was called with, in
  order.
\<close>

record install_state =
  tmpModules :: "string \<Rightarrow> jsval"
  calls :: "app_call list"
  required :: "string list"

definition id_without_handler :: "RouteMetadata \<Rightarrow> string" where
  "id_without_handler r =
     ''found x-eov-operation-id for route '' @ method r @ '' - '' @ expressRoute r @
     '']. x-eov-operation-handler required.''"

definition handler_without_id :: "RouteMetadata \<Rightarrow> string" where
  "handler_without_id r =
     ''found x-eov-operation-handler for route ['' @ method r @ '' - '' @ expressRoute r @
     '']. operationId or x-eov-operation-id required.''"

definition could_not_find :: "string \<Rightarrow> string \<Rightarrow> string" where
  "could_not_find oId modulePath =
     ''Could not find '' @ sq @ ''x-eov-operation-handler'' @ sq @ '' with id '' @ oId @
     '' in module '' @ sq @ modulePath @ sq @ ''. Make sure operation '' @ sq @ oId @ sq @
     '' defined in your API spec exists as a handler function in '' @ sq @ modulePath @ sq @ ''.''"

text \<open>
  Lines 265 to 271: a path whose entry of \<^verbatim>\<open>tmpModules\<close> is falsy is loaded; when the
  identifier is not (a truthy property) of what was loaded, the entry is replaced by the
  module's \<^verbatim>\<open>default\<close>. The result is the error thrown, if any, with the state then.
\<close>

definition load_module ::
  "host \<Rightarrow> string \<Rightarrow> string \<Rightarrow> install_state \<Rightarrow> js_error option \<times> install_state" where
  "load_module h modulePath oId s =
    (if \<not> truthy (tmpModules s modulePath) then
       (let s0 = s\<lparr>required := required s @ [modulePath]\<rparr> in
        case require h modulePath of
          Inl e \<Rightarrow> (Some e, s0)
        | Inr m \<Rightarrow>
            (let s1 = s0\<lparr>tmpModules := (tmpModules s0)(modulePath := m)\<rparr> in
             case get_prop h m oId of
               Inl e \<Rightarrow> (Some e, s1)
             | Inr v \<Rightarrow>
                 if \<not> truthy v then
                   (case get_prop h m ''default'' of
                      Inl e \<Rightarrow> (Some e, s1)
                    | Inr d \<Rightarrow> (None, s1\<lparr>tmpModules := (tmpModules s1)(modulePath := d)\<rparr>))
                 else (None, s1)))
     else (None, s))"

text \<open>The body of the loop over the routes (lines 246 to 279), for one route.\<close>

definition handle_route ::
  "host \<Rightarrow> jsval \<Rightarrow> install_state \<Rightarrow> RouteMetadata \<Rightarrow> js_error option \<times> install_state" where
  "handle_route h handlers s r =
    (let oId = js_or (lookup (schema r) ''x-eov-operation-id'') (lookup (schema r) ''operationId'');
         baseName = lookup (schema r) ''x-eov-operation-handler''
     in if truthy oId \<and> \<not> truthy baseName then (Some (Error (id_without_handler r)), s)
        else if \<not> truthy oId \<and> truthy baseName then (Some (Error (handler_without_id r)), s)
        else if truthy oId \<and> truthy baseName \<and> typeof handlers = ''string'' then
          (case join_path h handlers baseName of
             Inl e \<Rightarrow> (Some e, s)
           | Inr modulePath \<Rightarrow>
               (case load_module h modulePath (to_str h oId) s of
                  (Some e, s1) \<Rightarrow> (Some e, s1)
                | (None, s1) \<Rightarrow>
                    (case get_prop h (tmpModules s1 modulePath) (to_str h oId) of
                       Inl e \<Rightarrow> (Some e, s1)
                     | Inr fn \<Rightarrow>
                         if \<not> truthy fn
                         then (Some (Error (could_not_find (to_str h oId) modulePath)), s1)
                         else (None, s1\<lparr>calls := calls s1 @
                                 [App_method (toLowerCase (method r)) (expressRoute r) fn]\<rparr>))))
        else (None, s))"

text \<open>The loop: it stops at the first route that throws.\<close>

fun install_routes ::
  "host \<Rightarrow> jsval \<Rightarrow> install_state \<Rightarrow> RouteMetadata list \<Rightarrow> js_error option \<times> install_state" where
  "install_routes h handlers s [] = (None, s)"
| "install_routes h handlers s (r # rs) =
     (case handle_route h handlers s r of
        (Some e, s1) \<Rightarrow> (Some e, s1)
      | (None, s1) \<Rightarrow> install_routes h handlers s1 rs)"

definition installOperationHandlers ::
  "host \<Rightarrow> OpenApiValidatorOpts \<Rightarrow> app_call list \<Rightarrow> OpenApiContext
     \<Rightarrow> js_error option \<times> install_state" where
  "installOperationHandlers h options app context =
     install_routes h (operationHandlers options)
       \<lparr>tmpModules = (\<lambda>p. inherited h (JObj []) p), calls = app, required = []\<rparr>
       (routes context)"

subsection \<open>The pipeline\<close>

text \<open>
  \<^verbatim>\<open>installMiddleware\<close> (lines 99 to 124), from the context on (the context is built
  from the loaded document by code outside this file). The result is the error thrown, if
  any, and the calls made on the application up to then.
\<close>

definition installMiddleware ::
  "host \<Rightarrow> OpenApiValidatorOpts \<Rightarrow> app_call list \<Rightarrow> OpenApiContext
     \<Rightarrow> js_error option \<times> app_call list" where
  "installMiddleware h options app context =
    (let app1 = installPathParams app context;
         app2 = installMetadataMiddleware app1 context;
         app3 = (if truthy (fileUploader options)
                 then installMultipartMiddleware options app2 context else app2);
         components = lookup (apiDoc context) ''components'';
         app4 = (if truthy (validateSecurity options) \<and>
                    truthy (opt_prop components ''securitySchemes'')
                 then installSecurityMiddleware options app3 context else app3);
         app5 = (if truthy (validateRequests options)
                 then installRequestValidationMiddleware options app4 context else app4);
         app6 = (if truthy (validateResponses options)
                 then installResponseValidationMiddleware options app5 context else app5)
     in if truthy (operationHandlers options)
        then (case installOperationHandlers h options app6 context of (e, s) \<Rightarrow> (e, calls s))
        else (None, app6))"

section \<open>Notions used to state the properties\<close>

text \<open>
  The stage of a call in the pipeline: path parameters, route metadata, multipart,
  security, request validation, response validation, operation handlers.
\<close>

fun stage :: "app_call \<Rightarrow> nat" where
  "stage (App_param p) = 0"
| "stage (App_use applyOpenApiMetadata) = 1"
| "stage (App_use (multipart v)) = 2"
| "stage (App_use (security v)) = 3"
| "stage (App_use (RequestValidator v)) = 4"
| "stage (App_use (ResponseValidator v)) = 5"
| "stage (App_method m p f) = 6"

text \<open>The options of the request validators, and the handlers of the security middlewares, among the calls.\<close>

fun request_validators :: "app_call list \<Rightarrow> jsval list" where
  "request_validators [] = []"
| "request_validators (App_use (RequestValidator v) # cs) = v # request_validators cs"
| "request_validators (c # cs) = request_validators cs"

fun security_uses :: "app_call list \<Rightarrow> jsval list" where
  "security_uses [] = []"
| "security_uses (App_use (security v) # cs) = v # security_uses cs"
| "security_uses (c # cs) = security_uses cs"

text \<open>
  The middlewares between the metadata middleware and the operation handlers, as one
  list: what lines 104 to 119 install for given options and context.
\<close>

definition pipeline_calls :: "OpenApiValidatorOpts \<Rightarrow> OpenApiContext \<Rightarrow> app_call list" where
  "pipeline_calls options context =
     (if truthy (fileUploader options) then [App_use (multipart (fileUploader options))] else []) @
     (if truthy (validateSecurity options) \<and>
         truthy (opt_prop (lookup (apiDoc context) ''components'') ''securitySchemes'')
      then [App_use (security (opt_prop (validateSecurity options) ''handlers''))] else []) @
     (if truthy (validateRequests options)
      then [App_use (RequestValidator (JObj
           [(''nullable'', JBool True),
            (''coerceTypes'', coerceTypes options),
            (''removeAdditional'', JBool False),
            (''useDefaults'', JBool True),
            (''unknownFormats'', unknownFormats options),
            (''allowUnknownQueryParameters'',
               opt_prop (validateRequests options) ''allowUnknownQueryParameters''),
            (''format'', validateFormats options)]))] else []) @
     (if truthy (validateResponses options)
      then [App_use (ResponseValidator (JObj
           [(''nullable'', JBool True),
            (''coerceTypes'', coerceTypes options),
            (''removeAdditional'', opt_prop (validateResponses options) ''removeAdditional''),
            (''unknownFormats'', unknownFormats options),
            (''format'', validateFormats options)]))] else [])"

text \<open>
  A route declares a key of its operation object when the value is truthy: that is the
  test the code makes (an empty string, \<^verbatim>\<open>null\<close> or \<^verbatim>\<open>false\<close> counts as not declared).
  A route is unpaired when it declares an operation identifier and no handler module, or
  a handler module and no operation identifier.
\<close>

definition declares :: "RouteMetadata \<Rightarrow> string \<Rightarrow> bool" where
  "declares r k = truthy (lookup (schema r) k)"

definition unpaired :: "RouteMetadata \<Rightarrow> bool" where
  "unpaired r =
    (((declares r ''x-eov-operation-id'' \<or> declares r ''operationId'') \<and>
        \<not> declares r ''x-eov-operation-handler'') \<or>
     (declares r ''x-eov-operation-handler'' \<and>
        \<not> declares r ''x-eov-operation-id'' \<and> \<not> declares r ''operationId''))"

text \<open>
  The invariant of the loop over the routes: no path was required twice, and every path
  required so far has a truthy entry in \<^verbatim>\<open>tmpModules\<close>.
\<close>

definition memo_inv :: "install_state \<Rightarrow> bool" where
  "memo_inv s = (distinct (required s) \<and> list_all (\<lambda>p. truthy (tmpModules s p)) (required s))"

text \<open>
  A runtime whose modules are of the usual kind: what a module exports, and its default
  export, is truthy (an object, a function) or is \<^verbatim>\<open>undefined\<close> or \<^verbatim>\<open>null\<close>; none is a
  falsy value such as the empty string.
\<close>

definition usual_modules :: "host \<Rightarrow> bool" where
  "usual_modules h =
    (\<forall>p m. require h p = Inr m \<longrightarrow>
       (truthy m \<or> eq_null m) \<and>
       (\<forall>d. get_prop h m ''default'' = Inr d \<longrightarrow> truthy d \<or> eq_null d))"

text \<open>
  Handler resolution in the words of the specification, for one module and one operation
  identifier: the export of that name at the top level of the module if there is one, and
  otherwise the property of that name of the module's default export.
\<close>

definition claimed_handler :: "host \<Rightarrow> jsval \<Rightarrow> string \<Rightarrow> js_error + jsval" where
  "claimed_handler h m oId =
    (case get_prop h m oId of
       Inl e \<Rightarrow> Inl e
     | Inr v \<Rightarrow>
         if v \<noteq> Undefined then Inr v
         else (case get_prop h m ''default'' of Inl e \<Rightarrow> Inl e | Inr d \<Rightarrow> get_prop h d oId))"

section \<open>Examples\<close>

text \<open>An options record with nothing but the document's location, and what the constructor makes of it.\<close>

definition minimal_opts :: OpenApiValidatorOpts where
  "minimal_opts =
    \<lparr>apiSpec = JStr ''api.yaml'', validateResponses = Undefined, validateRequests = Undefined,
     validateSecurity = Undefined, securityHandlers = Undefined, ignorePaths = Undefined,
     coerceTypes = Undefined, unknownFormats = Undefined, fileUploader = Undefined,
     multerOpts = Undefined, refParser = Undefined, operationHandlers = Undefined,
     validateFormats = Undefined\<rparr>"

definition built_minimal :: OpenApiValidatorOpts where
  "built_minimal =
    \<lparr>apiSpec = JStr ''api.yaml'', validateResponses = JBool False,
     validateRequests = JObj [(''allowUnknownQueryParameters'', JBool False)],
     validateSecurity = JObj [], securityHandlers = Undefined, ignorePaths = Undefined,
     coerceTypes = JBool True, unknownFormats = Undefined, fileUploader = JObj [],
     multerOpts = Undefined, refParser = JObj [(''mode'', JStr ''bundle'')],
     operationHandlers = JBool False, validateFormats = JStr ''fast''\<rparr>"

definition security_conflict_opts :: OpenApiValidatorOpts where
  "security_conflict_opts = minimal_opts\<lparr>securityHandlers := JObj [], validateSecurity := JObj []\<rparr>"

definition upload_conflict_opts :: OpenApiValidatorOpts where
  "upload_conflict_opts = minimal_opts\<lparr>multerOpts := JObj [], fileUploader := JObj []\<rparr>"

text \<open>Built options with a directory of handler modules, and with response validation too.\<close>

definition handlers_opts :: OpenApiValidatorOpts where
  "handlers_opts = built_minimal\<lparr>operationHandlers := JStr ''handlers''\<rparr>"

definition full_opts :: OpenApiValidatorOpts where
  "full_opts = handlers_opts\<lparr>validateResponses := JObj [(''removeAdditional'', JBool False)]\<rparr>"

text \<open>
  Two handler modules. \<^verbatim>\<open>handlers/pets\<close> exports \<^verbatim>\<open>listPets\<close> and has no default export;
  \<^verbatim>\<open>handlers/users\<close> exports \<^verbatim>\<open>showUser\<close> at the top level, and \<^verbatim>\<open>listUsers\<close> and another
  \<^verbatim>\<open>showUser\<close> under its default export.
\<close>

definition pets_module :: jsval where
  "pets_module = JObj [(''listPets'', JFun ''pets.listPets'')]"

definition users_default :: jsval where
  "users_default =
     JObj [(''listUsers'', JFun ''users.default.listUsers''),
           (''showUser'', JFun ''users.default.showUser'')]"

definition users_module :: jsval where
  "users_module = JObj [(''showUser'', JFun ''users.showUser''), (''default'', users_default)]"

text \<open>
  Some of the members the runtime gives: every object inherits \<^verbatim>\<open>constructor\<close> and
  \<^verbatim>\<open>toString\<close>, every string has \<^verbatim>\<open>trim\<close> and \<^verbatim>\<open>toUpperCase\<close>.
\<close>

fun example_inherited :: "jsval \<Rightarrow> string \<Rightarrow> jsval" where
  "example_inherited (JObj kvs) k =
     (if k = ''constructor'' then JFun ''Object''
      else if k = ''toString'' then JFun ''Object.prototype.toString''
      else Undefined)"
| "example_inherited (JStr s) k =
     (if k = ''trim'' then JFun ''String.prototype.trim''
      else if k = ''toUpperCase'' then JFun ''String.prototype.toUpperCase''
      else Undefined)"
| "example_inherited v k = Undefined"

text \<open>A third module, \<^verbatim>\<open>handlers/strings\<close>, exports the empty string.\<close>

definition example_host :: host where
  "example_host =
    \<lparr>require = (\<lambda>p. if p = ''handlers/pets'' then Inr pets_module
                     else if p = ''handlers/users'' then Inr users_module
                     else if p = ''handlers/strings'' then Inr (JStr [])
                     else Inl (Error (''Cannot find module '' @ sq @ p @ sq))),
     path_join = (\<lambda>a b. a @ ''/'' @ b),
     js_toString = (\<lambda>v. ''[object Object]''),
     inherited = example_inherited,
     cannot_read = (\<lambda>k v. ''Cannot read property '' @ sq @ k @ sq @ '' of '' @
                            (if v = Null then ''null'' else ''undefined''))\<rparr>"

definition list_pets_route :: RouteMetadata where
  "list_pets_route =
    \<lparr>expressRoute = ''/pets'', method = ''GET'',
     schema = [(''operationId'', JStr ''listPets''), (''x-eov-operation-handler'', JStr ''pets'')],
     pathParams = []\<rparr>"

definition show_pet_route :: RouteMetadata where
  "show_pet_route =
    \<lparr>expressRoute = ''/pets/:petId'', method = ''GET'',
     schema = [(''operationId'', JStr ''showPet''), (''x-eov-operation-handler'', JStr ''pets'')],
     pathParams = [''petId'']\<rparr>"

definition list_users_route :: RouteMetadata where
  "list_users_route =
    \<lparr>expressRoute = ''/users'', method = ''GET'',
     schema = [(''operationId'', JStr ''listUsers''), (''x-eov-operation-handler'', JStr ''users'')],
     pathParams = []\<rparr>"

definition show_user_route :: RouteMetadata where
  "show_user_route =
    \<lparr>expressRoute = ''/users/:userId'', method = ''GET'',
     schema = [(''operationId'', JStr ''showUser''), (''x-eov-operation-handler'', JStr ''users'')],
     pathParams = [''userId'']\<rparr>"

definition create_order_route :: RouteMetadata where
  "create_order_route =
    \<lparr>expressRoute = ''/orders'', method = ''POST'',
     schema = [(''operationId'', JStr ''createOrder'')],
     pathParams = []\<rparr>"

definition both_ids_route :: RouteMetadata where
  "both_ids_route =
    \<lparr>expressRoute = ''/pets'', method = ''GET'',
     schema = [(''x-eov-operation-id'', JStr ''listPets''), (''operationId'', JStr ''petsIndex''),
               (''x-eov-operation-handler'', JStr ''pets'')],
     pathParams = []\<rparr>"

definition trim_route :: RouteMetadata where
  "trim_route =
    \<lparr>expressRoute = ''/trim'', method = ''GET'',
     schema = [(''operationId'', JStr ''trim''), (''x-eov-operation-handler'', JStr ''strings'')],
     pathParams = []\<rparr>"

definition upper_route :: RouteMetadata where
  "upper_route =
    \<lparr>expressRoute = ''/upper'', method = ''GET'',
     schema = [(''operationId'', JStr ''toUpperCase''),
               (''x-eov-operation-handler'', JStr ''strings'')],
     pathParams = []\<rparr>"

text \<open>A document without \<^verbatim>\<open>components\<close>, and one that declares a security scheme.\<close>

definition example_context :: "RouteMetadata list \<Rightarrow> OpenApiContext" where
  "example_context rs = \<lparr>apiDoc = [(''openapi'', JStr ''3.0.0'')], routes = rs\<rparr>"

definition secured_context :: "RouteMetadata list \<Rightarrow> OpenApiContext" where
  "secured_context rs =
    \<lparr>apiDoc = [(''openapi'', JStr ''3.0.0''),
               (''components'', JObj [(''securitySchemes'', JObj [(''ApiKeyAuth'', JObj [])])])],
     routes = rs\<rparr>"

text \<open>The state in which the loop over the routes starts, with no call made yet.\<close>

definition empty_state :: install_state where
  "empty_state =
    \<lparr>tmpModules = (\<lambda>p. inherited example_host (JObj []) p), calls = [], required = []\<rparr>"

section \<open>Facts about the model\<close>

lemma get_prop_not_null: "get_prop h v k = Inr f \<Longrightarrow> \<not> eq_null v"
  by (cases v) auto

lemma toLowerCase_GET: "toLowerCase ''GET'' = ''get''"
  by code_simp

lemma toLowerCase_POST: "toLowerCase ''POST'' = ''post''"
  by code_simp

lemma OpenApiValidator_minimal: "OpenApiValidator minimal_opts = Inr built_minimal"
  by (simp add: OpenApiValidator_def validateOptions_def normalizeOptions_def apply_defaults_def
      default_unknownFormats_def expand_booleans_def minimal_opts_def built_minimal_def Let_def)

lemmas install_defs =
  installMiddleware_def installPathParams_def installMetadataMiddleware_def
  installMultipartMiddleware_def installSecurityMiddleware_def
  installRequestValidationMiddleware_def installResponseValidationMiddleware_def

lemmas example_defs =
  installOperationHandlers_def handle_route_def load_module_def example_host_def empty_state_def
  handlers_opts_def full_opts_def built_minimal_def example_context_def secured_context_def
  js_or_def lookup_def Let_def pets_module_def users_module_def users_default_def sq_def
  toLowerCase_GET toLowerCase_POST

subsection \<open>The calls made on the application\<close>

lemma load_module_calls: "calls (snd (load_module h p k s)) = calls s"
  by (simp add: load_module_def Let_def split: sum.splits)

lemma handle_route_calls:
  "calls (snd (handle_route h hs s r)) = calls s \<or>
   (\<exists>f. calls (snd (handle_route h hs s r)) =
          calls s @ [App_method (toLowerCase (method r)) (expressRoute r) f])"
proof -
  have *: "calls s1 = calls s" if "load_module h p k s = (e, s1)" for p k e s1
    using load_module_calls [of h p k s] that by simp
  show ?thesis
    by (auto simp: handle_route_def Let_def * split: sum.splits option.splits prod.splits)
qed

lemma install_routes_calls:
  "\<exists>ms. calls (snd (install_routes h hs s rs)) = calls s @ ms \<and> list_all (\<lambda>c. stage c = 6) ms"
proof (induction rs arbitrary: s)
  case Nil
  then show ?case by simp
next
  case (Cons r rs)
  obtain e s1 where step: "handle_route h hs s r = (e, s1)"
    by (cases "handle_route h hs s r")
  from handle_route_calls [of h hs s r] step
  obtain m1 where m1: "calls s1 = calls s @ m1" "list_all (\<lambda>c. stage c = 6) m1"
    by auto
  show ?case
  proof (cases e)
    case None
    from Cons.IH [of s1] obtain ms where
      "calls (snd (install_routes h hs s1 rs)) = calls s1 @ ms" "list_all (\<lambda>c. stage c = 6) ms"
      by blast
    with m1 None step show ?thesis
      by (intro exI [of _ "m1 @ ms"]) simp
  next
    case (Some a)
    with m1 step show ?thesis by (intro exI [of _ m1]) simp
  qed
qed

lemma installOperationHandlers_calls:
  "\<exists>ms. calls (snd (installOperationHandlers h options app context)) = app @ ms \<and>
        list_all (\<lambda>c. stage c = 6) ms"
  using install_routes_calls [of h "operationHandlers options"
      "\<lparr>tmpModules = (\<lambda>p. inherited h (JObj []) p), calls = app, required = []\<rparr>"
      "routes context"]
  by (simp add: installOperationHandlers_def)

lemma installMiddleware_before_handlers:
  "truthy (operationHandlers options) \<Longrightarrow>
   installMiddleware h options app context =
     (case installOperationHandlers h options
         (app @ map App_param (uniq (collect_pathParams [] (routes context))) @
          [App_use applyOpenApiMetadata] @ pipeline_calls options context) context
      of (e, s) \<Rightarrow> (e, calls s))"
  by (simp add: install_defs pipeline_calls_def Let_def)

lemma installMiddleware_calls:
  "\<exists>ms. snd (installMiddleware h options app context) =
          app @ map App_param (uniq (collect_pathParams [] (routes context))) @
          [App_use applyOpenApiMetadata] @ pipeline_calls options context @ ms \<and>
        list_all (\<lambda>c. stage c = 6) ms"
proof (cases "truthy (operationHandlers options)")
  case False
  then show ?thesis
    by (intro exI [of _ "[]"]) (simp add: install_defs pipeline_calls_def Let_def)
next
  case True
  let ?app6 = "app @ map App_param (uniq (collect_pathParams [] (routes context))) @
          [App_use applyOpenApiMetadata] @ pipeline_calls options context"
  obtain ms where ms: "calls (snd (installOperationHandlers h options ?app6 context)) = ?app6 @ ms"
    "list_all (\<lambda>c. stage c = 6) ms"
    using installOperationHandlers_calls [of h options "?app6" "context"] by blast
  have "snd (installMiddleware h options app context) =
        calls (snd (installOperationHandlers h options ?app6 context))"
    using True by (simp add: installMiddleware_before_handlers split: prod.splits)
  with ms show ?thesis by (intro exI [of _ ms]) simp
qed

lemma pipeline_calls_sorted: "sorted (map stage (pipeline_calls options context))"
  by (simp add: pipeline_calls_def)

lemma pipeline_calls_stage:
  "list_all (\<lambda>c. 2 \<le> stage c \<and> stage c \<le> 5) (pipeline_calls options context)"
  by (simp add: pipeline_calls_def)

lemma sorted_same_stage: "list_all (\<lambda>c. stage c = k) xs \<Longrightarrow> sorted (map stage xs)"
  by (induction xs) (auto simp: list_all_iff)

lemma request_validators_append:
  "request_validators (xs @ ys) = request_validators xs @ request_validators ys"
  by (induction xs rule: request_validators.induct) simp_all

lemma security_uses_append:
  "security_uses (xs @ ys) = security_uses xs @ security_uses ys"
  by (induction xs rule: security_uses.induct) simp_all

lemma request_validators_handlers:
  "list_all (\<lambda>c. stage c = 6) ms \<Longrightarrow> request_validators ms = []"
  by (induction ms rule: request_validators.induct) simp_all

lemma security_uses_handlers:
  "list_all (\<lambda>c. stage c = 6) ms \<Longrightarrow> security_uses ms = []"
  by (induction ms rule: security_uses.induct) simp_all

lemma security_uses_params: "security_uses (map App_param ps) = []"
  by (induction ps) simp_all

lemma request_validators_params: "request_validators (map App_param ps) = []"
  by (induction ps) simp_all

subsection \<open>The memoized modules\<close>

lemma load_module_cases:
  assumes "load_module h p k s = (e, s1)"
  shows "(truthy (tmpModules s p) \<and> s1 = s \<and> e = None) \<or>
         (\<not> truthy (tmpModules s p) \<and> required s1 = required s @ [p] \<and>
          (\<forall>q. q \<noteq> p \<longrightarrow> tmpModules s1 q = tmpModules s q) \<and>
          (e = None \<longrightarrow>
             (\<exists>m. require h p = Inr m \<and>
                (tmpModules s1 p = m \<or>
                 (\<exists>d. get_prop h m ''default'' = Inr d \<and> tmpModules s1 p = d)))))"
  using assms by (auto simp: load_module_def Let_def split: if_splits sum.splits)

lemma handle_route_cases:
  assumes "handle_route h hs s r = (e, s1)"
  shows "s1 = s \<or>
    (\<exists>p k e2 s2. load_module h p k s = (e2, s2) \<and>
       ((e \<noteq> None \<and> s1 = s2) \<or>
        (e = None \<and> e2 = None \<and> (\<exists>f. get_prop h (tmpModules s2 p) k = Inr f) \<and>
         (\<exists>cs. s1 = s2\<lparr>calls := cs\<rparr>))))"
proof -
  let ?oId = "js_or (lookup (schema r) ''x-eov-operation-id'') (lookup (schema r) ''operationId'')"
  let ?baseName = "lookup (schema r) ''x-eov-operation-handler''"
  show ?thesis
  proof (cases "truthy ?oId \<and> truthy ?baseName \<and> typeof hs = ''string''")
    case False
    with assms show ?thesis
      by (auto simp: handle_route_def Let_def split: if_splits)
  next
    case True
    show ?thesis
    proof (cases "join_path h hs ?baseName")
      case (Inl a)
      with True assms show ?thesis by (auto simp: handle_route_def Let_def)
    next
      case (Inr p)
      obtain e2 s2 where l: "load_module h p (to_str h ?oId) s = (e2, s2)"
        by (cases "load_module h p (to_str h ?oId) s")
      show ?thesis
      proof (cases e2)
        case (Some a)
        with True Inr l assms have "e \<noteq> None \<and> s1 = s2"
          by (auto simp: handle_route_def Let_def)
        with l show ?thesis by blast
      next
        case None
        show ?thesis
        proof (cases "get_prop h (tmpModules s2 p) (to_str h ?oId)")
          case (Inl a)
          with None True Inr l assms have "e \<noteq> None \<and> s1 = s2"
            by (auto simp: handle_route_def Let_def)
          with l show ?thesis by blast
        next
          case fn: (Inr fn)
          show ?thesis
          proof (cases "truthy fn")
            case False
            with fn None True Inr l assms have "e \<noteq> None \<and> s1 = s2"
              by (auto simp: handle_route_def Let_def)
            with l show ?thesis by blast
          next
            case t: True
            from t fn None True Inr l assms
            have "e = None \<and> (\<exists>cs. s1 = s2\<lparr>calls := cs\<rparr>)"
              by (auto simp: handle_route_def Let_def)
            with fn None l show ?thesis by blast
          qed
        qed
      qed
    qed
  qed
qed

lemma handle_route_inv:
  assumes usual: "usual_modules h"
    and inv: "memo_inv s" and step: "handle_route h hs s r = (e, s1)"
  shows "distinct (required s1) \<and> (e = None \<longrightarrow> memo_inv s1)"
proof -
  from handle_route_cases [OF step] consider
      (same) "s1 = s"
    | (load) p k e2 s2 where "load_module h p k s = (e2, s2)"
        "(e \<noteq> None \<and> s1 = s2) \<or>
         (e = None \<and> e2 = None \<and> (\<exists>f. get_prop h (tmpModules s2 p) k = Inr f) \<and>
          (\<exists>cs. s1 = s2\<lparr>calls := cs\<rparr>))"
    by blast
  then show ?thesis
  proof cases
    case same
    with inv show ?thesis by (simp add: memo_inv_def)
  next
    case load
    from load_module_cases [OF load(1)] consider
        (memo) "truthy (tmpModules s p)" "s2 = s" "e2 = None"
      | (fresh) "\<not> truthy (tmpModules s p)" "required s2 = required s @ [p]"
          "\<forall>q. q \<noteq> p \<longrightarrow> tmpModules s2 q = tmpModules s q"
          "e2 = None \<longrightarrow>
             (\<exists>m. require h p = Inr m \<and>
                (tmpModules s2 p = m \<or>
                 (\<exists>d. get_prop h m ''default'' = Inr d \<and> tmpModules s2 p = d)))"
      by blast
    then show ?thesis
    proof cases
      case memo
      then show ?thesis using inv load(2) by (auto simp: memo_inv_def)
    next
      case fresh
      from fresh(1) inv have notin: "p \<notin> set (required s)"
        by (auto simp: memo_inv_def list_all_iff)
      with fresh(3) have keep: "\<forall>q\<in>set (required s). tmpModules s2 q = tmpModules s q"
        by auto
      have kept: "truthy (tmpModules s2 p)" if "e = None"
      proof -
        from that load(2) have e2: "e2 = None"
          and rd: "\<exists>f. get_prop h (tmpModules s2 p) k = Inr f" by auto
        from rd have nn: "\<not> eq_null (tmpModules s2 p)"
          by (auto dest: get_prop_not_null)
        from e2 fresh(4) obtain m where m: "require h p = Inr m"
          "tmpModules s2 p = m \<or> (\<exists>d. get_prop h m ''default'' = Inr d \<and> tmpModules s2 p = d)"
          by blast
        from usual m(1) have "truthy m \<or> eq_null m"
          and "\<forall>d. get_prop h m ''default'' = Inr d \<longrightarrow> truthy d \<or> eq_null d"
          unfolding usual_modules_def by blast+
        with m(2) nn show ?thesis by auto
      qed
      from notin keep fresh(2) inv load(2) kept show ?thesis
        by (auto simp: memo_inv_def list_all_iff)
    qed
  qed
qed

lemma install_routes_distinct:
  "usual_modules h \<Longrightarrow> memo_inv s \<Longrightarrow> distinct (required (snd (install_routes h hs s rs)))"
proof (induction rs arbitrary: s)
  case Nil
  then show ?case by (simp add: memo_inv_def)
next
  case (Cons r rs)
  obtain e s1 where step: "handle_route h hs s r = (e, s1)"
    by (cases "handle_route h hs s r")
  from handle_route_inv [OF Cons.prems step]
  have d: "distinct (required s1)" and i: "e = None \<longrightarrow> memo_inv s1" by simp_all
  show ?case
  proof (cases e)
    case None
    with i have "memo_inv s1" by simp
    from Cons.IH [OF Cons.prems(1) this] None step show ?thesis by simp
  next
    case (Some a)
    with d step show ?thesis by simp
  qed
qed

subsection \<open>Unpaired routes\<close>

lemma handle_route_unpaired:
  assumes "unpaired r"
  shows "handle_route h hs s r =
    (Some (Error (if declares r ''x-eov-operation-handler''
                  then handler_without_id r else id_without_handler r)), s)"
  using assms
  by (auto simp: unpaired_def declares_def handle_route_def js_or_def Let_def)

lemma install_routes_unpaired:
  "r \<in> set rs \<Longrightarrow> unpaired r \<Longrightarrow> \<exists>e. fst (install_routes h hs s rs) = Some e"
proof (induction rs arbitrary: s)
  case Nil
  then show ?case by simp
next
  case (Cons a rs)
  obtain e s1 where step: "handle_route h hs s a = (e, s1)"
    by (cases "handle_route h hs s a")
  show ?case
  proof (cases e)
    case (Some x)
    with step show ?thesis by simp
  next
    case None
    with step Cons.prems(2) handle_route_unpaired [of a h hs s] have "r \<noteq> a"
      by auto
    with Cons.prems have "r \<in> set rs" by simp
    from Cons.IH [OF this Cons.prems(2), of s1] None step show ?thesis by simp
  qed
qed

lemma lookup_without_operationId:
  "k \<noteq> ''operationId'' \<Longrightarrow>
   lookup (filter (\<lambda>kv. fst kv \<noteq> ''operationId'') kvs) k = lookup kvs k"
  by (induction kvs) (auto simp: lookup_def)

lemma OpenApiValidator_validateRequests:
  assumes "eq_null (validateRequests options) \<or> validateRequests options = JBool True"
    and "OpenApiValidator options = Inr built"
  shows "validateRequests built = JObj [(''allowUnknownQueryParameters'', JBool False)]"
proof -
  from assms(2) have b: "built = expand_booleans (apply_defaults (normalizeOptions options))"
    by (simp add: OpenApiValidator_def split: option.splits)
  have n: "validateRequests (normalizeOptions options) = validateRequests options"
    by (simp add: normalizeOptions_def Let_def)
  have d: "validateRequests (apply_defaults (normalizeOptions options)) = JBool True"
    using assms(1) n
    by (auto simp: apply_defaults_def default_unknownFormats_def Let_def)
  show ?thesis
    unfolding b using d by (simp add: expand_booleans_def Let_def)
qed

lemma normalizeOptions_unknownFormats:
  "unknownFormats (normalizeOptions options) = unknownFormats options"
  by (simp add: normalizeOptions_def Let_def)

lemma apply_defaults_unknownFormats:
  "unknownFormats (apply_defaults options) = unknownFormats options"
  by (simp add: apply_defaults_def default_unknownFormats_def Let_def)

lemma expand_booleans_unknownFormats:
  "unknownFormats (expand_booleans options) = unknownFormats options"
  by (simp add: expand_booleans_def Let_def)

section \<open>The constructor\<close>

text \<open>
  C1. When \<^verbatim>\<open>unknownFormats\<close> is \<^verbatim>\<open>null\<close> or \<^verbatim>\<open>undefined\<close> in the options given to the
  constructor, it is still that same \<^verbatim>\<open>null\<close> or \<^verbatim>\<open>undefined\<close> in the options of the
  validator built: line 37 compares and assigns nothing, so the default \<^verbatim>\<open>true\<close> is never
  stored.
\<close>

theorem unknownFormats_default_never_applied:
  assumes "eq_null (unknownFormats options)"
    and "OpenApiValidator options = Inr built"
  shows "unknownFormats built = unknownFormats options \<and> eq_null (unknownFormats built)
         \<and> unknownFormats built \<noteq> JBool True"
proof -
  from assms(2) have "built = expand_booleans (apply_defaults (normalizeOptions options))"
    by (simp add: OpenApiValidator_def split: option.splits)
  then have same: "unknownFormats built = unknownFormats options"
    by (simp add: expand_booleans_unknownFormats apply_defaults_unknownFormats
        normalizeOptions_unknownFormats)
  with assms(1) show ?thesis by auto
qed

theorem unknownFormats_default_never_applied_witness:
  "eq_null (unknownFormats minimal_opts) \<and> OpenApiValidator minimal_opts = Inr built_minimal
   \<and> unknownFormats built_minimal = Undefined \<and> unknownFormats built_minimal \<noteq> JBool True"
  using unknownFormats_default_never_applied [of minimal_opts built_minimal]
    OpenApiValidator_minimal
  by (simp add: minimal_opts_def)

text \<open>
  C8. When \<^verbatim>\<open>securityHandlers\<close> and \<^verbatim>\<open>validateSecurity\<close> are both supplied (both truthy), or
  \<^verbatim>\<open>multerOpts\<close> and \<^verbatim>\<open>fileUploader\<close> are both supplied, the constructor throws: no
  validator is built, so the conflict never reaches a request.
\<close>

theorem conflicting_options_throw:
  assumes "(truthy (securityHandlers options) \<and> truthy (validateSecurity options)) \<or>
           (truthy (multerOpts options) \<and> truthy (fileUploader options))"
  shows "\<exists>e. OpenApiValidator options = Inl e"
proof -
  from assms have "validateOptions options \<noteq> None"
    by (auto simp: validateOptions_def)
  then show ?thesis
    by (auto simp: OpenApiValidator_def)
qed

theorem conflicting_options_throw_witness:
  "truthy (securityHandlers security_conflict_opts) \<and>
   truthy (validateSecurity security_conflict_opts) \<and>
   OpenApiValidator security_conflict_opts =
     Inl (Error ''securityHandlers and validateSecurity may not be used together. Use validateSecurities.handlers to specify handlers.'') \<and>
   truthy (multerOpts upload_conflict_opts) \<and>
   truthy (fileUploader upload_conflict_opts) \<and>
   OpenApiValidator upload_conflict_opts =
     Inl (Error ''multerOpts and fileUploader may not be used together. Use fileUploader to specify upload options.'')"
  using conflicting_options_throw [of security_conflict_opts]
    conflicting_options_throw [of upload_conflict_opts]
  by (simp add: security_conflict_opts_def upload_conflict_opts_def minimal_opts_def
      OpenApiValidator_def validateOptions_def)

section \<open>The order of the pipeline\<close>

text \<open>
  C2. \<^verbatim>\<open>installMiddleware\<close> adds its calls to the application in a fixed order: the
  path-parameter overrides, then the route-metadata middleware, then multipart, security,
  request validation, response validation and the operation handlers (the stages are
  sorted). The metadata middleware is installed in every installation, everything
  installed before it is a path-parameter override, and every security or validation
  middleware comes after it. This holds of the calls made also when the installation of the
  operation handlers throws.
\<close>

theorem middlewares_installed_in_fixed_order:
  "\<exists>before after.
      snd (installMiddleware h options app context) =
        app @ before @ [App_use applyOpenApiMetadata] @ after \<and>
      list_all (\<lambda>c. stage c = 0) before \<and>
      list_all (\<lambda>c. 2 \<le> stage c) after \<and>
      sorted (map stage (before @ [App_use applyOpenApiMetadata] @ after))"
proof -
  obtain ms where ms: "snd (installMiddleware h options app context) =
          app @ map App_param (uniq (collect_pathParams [] (routes context))) @
          [App_use applyOpenApiMetadata] @ pipeline_calls options context @ ms"
    "list_all (\<lambda>c. stage c = 6) ms"
    using installMiddleware_calls by blast
  let ?before = "map App_param (uniq (collect_pathParams [] (routes context)))"
  let ?after = "pipeline_calls options context @ ms"
  have b: "list_all (\<lambda>c. stage c = 0) ?before"
    by (simp add: list_all_iff)
  have a: "list_all (\<lambda>c. 2 \<le> stage c) ?after"
    using ms(2) pipeline_calls_stage [of options "context"] by (auto simp: list_all_iff)
  have sms: "sorted (map stage ms)"
    using ms(2) by (rule sorted_same_stage)
  have sb: "sorted (map stage ?before)"
    using b by (rule sorted_same_stage)
  have s: "sorted (map stage (?before @ [App_use applyOpenApiMetadata] @ ?after))"
    using ms(2) b pipeline_calls_stage [of options "context"]
      pipeline_calls_sorted [of options "context"] sms sb
    by (fastforce simp: sorted_append list_all_iff)
  from ms(1) a b s show ?thesis
    by (intro exI [of _ ?before] exI [of _ ?after]) simp
qed

theorem middlewares_installed_in_fixed_order_witness:
  "snd (installMiddleware example_host full_opts []
      (secured_context [show_user_route, list_pets_route])) =
     [App_param ''userId'',
      App_use applyOpenApiMetadata,
      App_use (multipart (JObj [])),
      App_use (security Undefined),
      App_use (RequestValidator (JObj
        [(''nullable'', JBool True), (''coerceTypes'', JBool True),
         (''removeAdditional'', JBool False), (''useDefaults'', JBool True),
         (''unknownFormats'', Undefined), (''allowUnknownQueryParameters'', JBool False),
         (''format'', JStr ''fast'')])),
      App_use (ResponseValidator (JObj
        [(''nullable'', JBool True), (''coerceTypes'', JBool True),
         (''removeAdditional'', JBool False), (''unknownFormats'', Undefined),
         (''format'', JStr ''fast'')])),
      App_method ''get'' ''/users/:userId'' (JFun ''users.showUser''),
      App_method ''get'' ''/pets'' (JFun ''pets.listPets'')]"
  using middlewares_installed_in_fixed_order
    [of example_host full_opts "[]" "secured_context [show_user_route, list_pets_route]"]
  by (simp add: install_defs example_defs show_user_route_def list_pets_route_def uniq_def)

text \<open>
  C9. When the document declares no \<^verbatim>\<open>components.securitySchemes\<close>, the installation adds
  no security middleware to the application, whatever the options are, so with
  \<^verbatim>\<open>validateSecurity\<close> enabled too.
\<close>

theorem no_security_schemes_no_security_middleware:
  assumes "\<not> truthy (opt_prop (lookup (apiDoc context) ''components'') ''securitySchemes'')"
  shows "security_uses (snd (installMiddleware h options app context)) = security_uses app"
proof -
  obtain ms where ms: "snd (installMiddleware h options app context) =
          app @ map App_param (uniq (collect_pathParams [] (routes context))) @
          [App_use applyOpenApiMetadata] @ pipeline_calls options context @ ms"
    "list_all (\<lambda>c. stage c = 6) ms"
    using installMiddleware_calls by blast
  have "security_uses (pipeline_calls options context) = []"
    using assms by (simp add: pipeline_calls_def security_uses_append)
  with ms show ?thesis
    by (simp add: security_uses_append security_uses_params security_uses_handlers)
qed

theorem no_security_schemes_no_security_middleware_witness:
  "\<not> truthy (opt_prop (lookup (apiDoc (example_context [list_pets_route])) ''components'')
        ''securitySchemes'') \<and>
   truthy (validateSecurity handlers_opts) \<and>
   security_uses (snd (installMiddleware example_host handlers_opts []
      (example_context [list_pets_route]))) = []"
  using no_security_schemes_no_security_middleware
    [of "example_context [list_pets_route]" example_host handlers_opts "[]"]
  by (simp add: example_context_def handlers_opts_def built_minimal_def lookup_def)

text \<open>
  C3. When \<^verbatim>\<open>validateRequests\<close> is omitted (or \<^verbatim>\<open>null\<close>) or is \<^verbatim>\<open>true\<close>, the constructor
  stores the object \<^verbatim>\<open>{ allowUnknownQueryParameters: false }\<close> for it, and the installation
  adds exactly one request validator, built with \<^verbatim>\<open>allowUnknownQueryParameters\<close> false.
\<close>

theorem default_validateRequests_rejects_unknown_query:
  assumes "eq_null (validateRequests options) \<or> validateRequests options = JBool True"
    and "OpenApiValidator options = Inr built"
  shows "validateRequests built = JObj [(''allowUnknownQueryParameters'', JBool False)] \<and>
    (\<exists>v. request_validators (snd (installMiddleware h built app context)) =
            request_validators app @ [v] \<and>
          opt_prop v ''allowUnknownQueryParameters'' = JBool False)"
proof -
  have vr: "validateRequests built = JObj [(''allowUnknownQueryParameters'', JBool False)]"
    using assms by (rule OpenApiValidator_validateRequests)
  obtain ms where ms: "snd (installMiddleware h built app context) =
          app @ map App_param (uniq (collect_pathParams [] (routes context))) @
          [App_use applyOpenApiMetadata] @ pipeline_calls built context @ ms"
    "list_all (\<lambda>c. stage c = 6) ms"
    using installMiddleware_calls by blast
  let ?v = "JObj [(''nullable'', JBool True),
            (''coerceTypes'', coerceTypes built),
            (''removeAdditional'', JBool False),
            (''useDefaults'', JBool True),
            (''unknownFormats'', unknownFormats built),
            (''allowUnknownQueryParameters'', JBool False),
            (''format'', validateFormats built)]"
  have "request_validators (pipeline_calls built context) = [?v]"
    using vr by (simp add: pipeline_calls_def request_validators_append lookup_def)
  with ms have "request_validators (snd (installMiddleware h built app context)) =
            request_validators app @ [?v]"
    by (simp add: request_validators_append request_validators_params request_validators_handlers)
  moreover have "opt_prop ?v ''allowUnknownQueryParameters'' = JBool False"
    by (simp add: lookup_def)
  ultimately show ?thesis using vr by blast
qed

theorem default_validateRequests_rejects_unknown_query_witness:
  "eq_null (validateRequests minimal_opts) \<and>
   OpenApiValidator minimal_opts = Inr built_minimal \<and>
   validateRequests built_minimal = JObj [(''allowUnknownQueryParameters'', JBool False)] \<and>
   request_validators (snd (installMiddleware example_host built_minimal []
      (example_context [list_pets_route]))) =
     [JObj [(''nullable'', JBool True), (''coerceTypes'', JBool True),
            (''removeAdditional'', JBool False), (''useDefaults'', JBool True),
            (''unknownFormats'', Undefined), (''allowUnknownQueryParameters'', JBool False),
            (''format'', JStr ''fast'')]]"
proof -
  have "request_validators (snd (installMiddleware example_host built_minimal []
      (example_context [list_pets_route]))) =
     [JObj [(''nullable'', JBool True), (''coerceTypes'', JBool True),
            (''removeAdditional'', JBool False), (''useDefaults'', JBool True),
            (''unknownFormats'', Undefined), (''allowUnknownQueryParameters'', JBool False),
            (''format'', JStr ''fast'')]]"
    by (simp add: install_defs built_minimal_def example_context_def lookup_def Let_def
        list_pets_route_def uniq_def)
  then show ?thesis
    using default_validateRequests_rejects_unknown_query
      [of minimal_opts built_minimal example_host "[]" "example_context [list_pets_route]"]
      OpenApiValidator_minimal
    by (simp add: minimal_opts_def built_minimal_def)
qed

section \<open>Operation handlers\<close>

text \<open>
  C4. A route that declares an operation identifier (\<^verbatim>\<open>x-eov-operation-id\<close> or
  \<^verbatim>\<open>operationId\<close>) and no \<^verbatim>\<open>x-eov-operation-handler\<close>, or the handler and no identifier,
  makes \<^verbatim>\<open>installOperationHandlers\<close> throw; with operation handlers enabled the
  installation of the middlewares throws, so the error is raised at install time. When
  the loop reaches the route, the error is the \<^verbatim>\<open>Error\<close> of lines 250 or 255.
\<close>

theorem unpaired_route_throws_at_install:
  assumes "r \<in> set (routes context)" and "unpaired r"
  shows "(\<exists>e. fst (installOperationHandlers h options app context) = Some e) \<and>
         (truthy (operationHandlers options) \<longrightarrow>
            (\<exists>e. fst (installMiddleware h options app context) = Some e)) \<and>
         handle_route h (operationHandlers options) s r =
           (Some (Error (if declares r ''x-eov-operation-handler''
                         then handler_without_id r else id_without_handler r)), s)"
proof -
  have a: "\<exists>e. fst (installOperationHandlers h options app' context) = Some e" for app'
    unfolding installOperationHandlers_def
    using assms by (rule install_routes_unpaired)
  have b: "\<exists>e. fst (installMiddleware h options app context) = Some e"
    if "truthy (operationHandlers options)"
  proof -
    let ?app6 = "app @ map App_param (uniq (collect_pathParams [] (routes context))) @
          [App_use applyOpenApiMetadata] @ pipeline_calls options context"
    have "fst (installMiddleware h options app context) =
          fst (installOperationHandlers h options ?app6 context)"
      using that by (simp add: installMiddleware_before_handlers split: prod.splits)
    with a [of ?app6] show ?thesis by simp
  qed
  from a [of app] b handle_route_unpaired [OF assms(2)] show ?thesis by blast
qed

theorem unpaired_route_throws_at_install_witness:
  "create_order_route \<in> set (routes (example_context [list_pets_route, create_order_route])) \<and>
   unpaired create_order_route \<and>
   truthy (operationHandlers handlers_opts) \<and>
   fst (installMiddleware example_host handlers_opts []
      (example_context [list_pets_route, create_order_route])) =
     Some (Error ''found x-eov-operation-id for route POST - /orders]. x-eov-operation-handler required.'')"
proof -
  have "fst (installMiddleware example_host handlers_opts []
      (example_context [list_pets_route, create_order_route])) =
     Some (Error ''found x-eov-operation-id for route POST - /orders]. x-eov-operation-handler required.'')"
    by (simp add: install_defs example_defs list_pets_route_def create_order_route_def
        id_without_handler_def uniq_def)
  then show ?thesis
    using unpaired_route_throws_at_install
      [of create_order_route "example_context [list_pets_route, create_order_route]"
        example_host handlers_opts "[]" empty_state]
    by (simp add: example_context_def unpaired_def declares_def create_order_route_def
        lookup_def handlers_opts_def)
qed

text \<open>
  C10. When a route declares \<^verbatim>\<open>x-eov-operation-id\<close> (a truthy value), the standard
  \<^verbatim>\<open>operationId\<close> plays no part: the route is handled exactly as the same route without an
  \<^verbatim>\<open>operationId\<close>, and when a handler is registered it is the property named by
  \<^verbatim>\<open>x-eov-operation-id\<close> of what is kept for the module path.
\<close>

theorem extension_id_takes_precedence:
  assumes "truthy (lookup (schema r) ''x-eov-operation-id'')"
  shows "handle_route h hs s r =
           handle_route h hs s (r\<lparr>schema := filter (\<lambda>kv. fst kv \<noteq> ''operationId'') (schema r)\<rparr>) \<and>
         (\<forall>s1. handle_route h hs s r = (None, s1) \<and> typeof hs = ''string'' \<longrightarrow>
            (\<exists>p f. join_path h hs (lookup (schema r) ''x-eov-operation-handler'') = Inr p \<and>
               get_prop h (tmpModules s1 p) (to_str h (lookup (schema r) ''x-eov-operation-id'')) = Inr f \<and>
               truthy f \<and>
               calls s1 = calls s @ [App_method (toLowerCase (method r)) (expressRoute r) f]))"
proof (intro conjI allI impI)
  show "handle_route h hs s r =
        handle_route h hs s (r\<lparr>schema := filter (\<lambda>kv. fst kv \<noteq> ''operationId'') (schema r)\<rparr>)"
    using assms
    by (simp add: handle_route_def js_or_def lookup_without_operationId
        id_without_handler_def handler_without_id_def Let_def
        split: sum.splits prod.splits option.splits)
next
  fix s1
  assume a: "handle_route h hs s r = (None, s1) \<and> typeof hs = ''string''"
  let ?oId = "lookup (schema r) ''x-eov-operation-id''"
  let ?baseName = "lookup (schema r) ''x-eov-operation-handler''"
  from a assms have b: "truthy ?baseName"
    by (auto simp: handle_route_def js_or_def Let_def split: if_splits)
  from a assms b obtain p where p: "join_path h hs ?baseName = Inr p"
    by (cases "join_path h hs ?baseName") (auto simp: handle_route_def js_or_def Let_def)
  obtain e2 s2 where l: "load_module h p (to_str h ?oId) s = (e2, s2)"
    by (cases "load_module h p (to_str h ?oId) s")
  from a assms b p l have e2: "e2 = None"
    by (cases e2) (auto simp: handle_route_def js_or_def Let_def)
  from a assms b p l e2 obtain f where f: "get_prop h (tmpModules s2 p) (to_str h ?oId) = Inr f"
    by (cases "get_prop h (tmpModules s2 p) (to_str h ?oId)")
      (auto simp: handle_route_def js_or_def Let_def)
  from a assms b p l e2 f have tf: "truthy f"
    by (auto simp: handle_route_def js_or_def Let_def split: if_splits)
  from a assms b p l e2 f tf
  have s1: "s1 = s2\<lparr>calls := calls s2 @ [App_method (toLowerCase (method r)) (expressRoute r) f]\<rparr>"
    by (auto simp: handle_route_def js_or_def Let_def)
  have "calls s2 = calls s"
    using load_module_calls [of h p "to_str h ?oId" s] l by simp
  with s1 f tf p
  show "\<exists>p f. join_path h hs ?baseName = Inr p \<and>
               get_prop h (tmpModules s1 p) (to_str h ?oId) = Inr f \<and> truthy f \<and>
               calls s1 = calls s @ [App_method (toLowerCase (method r)) (expressRoute r) f]"
    by (intro exI [of _ p] exI [of _ f]) simp
qed

theorem extension_id_takes_precedence_witness:
  "truthy (lookup (schema both_ids_route) ''x-eov-operation-id'') \<and>
   lookup (schema both_ids_route) ''operationId'' = JStr ''petsIndex'' \<and>
   fst (handle_route example_host (JStr ''handlers'') empty_state both_ids_route) = None \<and>
   calls (snd (handle_route example_host (JStr ''handlers'') empty_state both_ids_route)) =
     [App_method ''get'' ''/pets'' (JFun ''pets.listPets'')] \<and>
   handle_route example_host (JStr ''handlers'') empty_state both_ids_route =
     handle_route example_host (JStr ''handlers'') empty_state
       (both_ids_route\<lparr>schema := [(''x-eov-operation-id'', JStr ''listPets''),
                                  (''x-eov-operation-handler'', JStr ''pets'')]\<rparr>)"
proof -
  have "fst (handle_route example_host (JStr ''handlers'') empty_state both_ids_route) = None"
    and "calls (snd (handle_route example_host (JStr ''handlers'') empty_state both_ids_route)) =
     [App_method ''get'' ''/pets'' (JFun ''pets.listPets'')]"
    by (simp_all add: example_defs both_ids_route_def empty_state_def)
  then show ?thesis
    using extension_id_takes_precedence
      [of both_ids_route example_host "JStr ''handlers''" empty_state]
    by (simp add: both_ids_route_def lookup_def)
qed

text \<open>
  C5, at an input where the code departs from it. The module \<^verbatim>\<open>handlers/pets\<close> loads, and
  has neither an export \<^verbatim>\<open>showPet\<close> nor a default export. Line 269 then stores
  \<^verbatim>\<open>undefined\<close> for the path, and the read of line 272 throws the runtime's \<open>TypeError\<close>
  before the test of line 273 is reached: the error is not the \<^verbatim>\<open>Error\<close> of line 274, and
  its message does not hold the module path.
\<close>

theorem missing_handler_without_default_export:
  "require example_host ''handlers/pets'' = Inr pets_module \<and>
   get_prop example_host pets_module ''showPet'' = Inr Undefined \<and>
   get_prop example_host pets_module ''default'' = Inr Undefined \<and>
   fst (installOperationHandlers example_host handlers_opts [] (example_context [show_pet_route])) =
     Some (TypeError (''Cannot read property '' @ sq @ ''showPet'' @ sq @ '' of undefined'')) \<and>
   \<not> sublist ''handlers/pets''
       (message (TypeError (''Cannot read property '' @ sq @ ''showPet'' @ sq @ '' of undefined'')))"
proof -
  have "\<not> sublist ''handlers/pets'' (''Cannot read property '' @ sq @ ''showPet'' @ sq @ '' of undefined'')"
    by code_simp
  moreover have "fst (installOperationHandlers example_host handlers_opts []
      (example_context [show_pet_route])) =
     Some (TypeError (''Cannot read property '' @ sq @ ''showPet'' @ sq @ '' of undefined''))"
    by (simp add: example_defs show_pet_route_def)
  ultimately show ?thesis
    by (simp add: example_host_def pets_module_def)
qed

text \<open>
  Where the code does reach line 274: when what is kept for the module path after loading
  can be read and the identifier is not a truthy member of it, the error is the
  \<^verbatim>\<open>Error\<close> whose message holds the identifier and the module path.
\<close>

lemma missing_handler_in_kept_namespace:
  assumes "oId = js_or (lookup (schema r) ''x-eov-operation-id'') (lookup (schema r) ''operationId'')"
    and "truthy oId"
    and "truthy (lookup (schema r) ''x-eov-operation-handler'')"
    and "join_path h hs (lookup (schema r) ''x-eov-operation-handler'') = Inr p"
    and "load_module h p (to_str h oId) s = (None, s1)"
    and "get_prop h (tmpModules s1 p) (to_str h oId) = Inr v"
    and "\<not> truthy v"
  shows "handle_route h hs s r = (Some (Error (could_not_find (to_str h oId) p)), s1) \<and>
         sublist (to_str h oId) (could_not_find (to_str h oId) p) \<and>
         sublist p (could_not_find (to_str h oId) p)"
proof -
  from assms(4) have str: "typeof hs = ''string''"
    by (cases hs; cases "lookup (schema r) ''x-eov-operation-handler''") simp_all
  have "handle_route h hs s r = (Some (Error (could_not_find (to_str h oId) p)), s1)"
    using assms(1) [symmetric] assms(2-7) str by (simp add: handle_route_def Let_def)
  moreover have "sublist (to_str h oId) (could_not_find (to_str h oId) p)"
    unfolding could_not_find_def sublist_def
    by (intro exI [of _ "''Could not find '' @ sq @ ''x-eov-operation-handler'' @ sq @ '' with id ''"]
        exI) simp
  moreover have "sublist p (could_not_find (to_str h oId) p)"
    unfolding could_not_find_def sublist_def
    by (intro exI [of _ "''Could not find '' @ sq @ ''x-eov-operation-handler'' @ sq @
          '' with id '' @ to_str h oId @ '' in module '' @ sq"] exI) simp
  ultimately show ?thesis by blast
qed

text \<open>
  C6, at an input where the code departs from it. The module \<^verbatim>\<open>handlers/users\<close> has a
  top-level export \<^verbatim>\<open>showUser\<close>, which is what the resolution in the words of the
  specification finds. The route before it, \<^verbatim>\<open>listUsers\<close>, is not a top-level export, so
  line 269 replaced what is kept for the path by the module's default export; the
  route \<^verbatim>\<open>showUser\<close> is looked up there alone, and the handler registered for it is the
  one of the default export.
\<close>

theorem later_route_skips_top_level_export:
  "claimed_handler example_host users_module ''showUser'' = Inr (JFun ''users.showUser'') \<and>
   claimed_handler example_host users_module ''showUser'' \<noteq> Inr (JFun ''users.default.showUser'') \<and>
   fst (installOperationHandlers example_host handlers_opts []
      (example_context [list_users_route, show_user_route])) = None \<and>
   calls (snd (installOperationHandlers example_host handlers_opts []
      (example_context [list_users_route, show_user_route]))) =
     [App_method ''get'' ''/users'' (JFun ''users.default.listUsers''),
      App_method ''get'' ''/users/:userId'' (JFun ''users.default.showUser'')]"
  by (simp add: example_defs claimed_handler_def list_users_route_def show_user_route_def)

text \<open>
  The same two routes in the other order: \<^verbatim>\<open>showUser\<close> is found at the top level, the
  module itself is kept for the path, and for \<^verbatim>\<open>listUsers\<close> the default export is not
  tried: the installation throws, although the resolution in the words of the
  specification finds the handler under the default export.
\<close>

lemma earlier_route_hides_default_export:
  "claimed_handler example_host users_module ''listUsers'' =
     Inr (JFun ''users.default.listUsers'') \<and>
   fst (installOperationHandlers example_host handlers_opts []
      (example_context [show_user_route, list_users_route])) =
     Some (Error (could_not_find ''listUsers'' ''handlers/users'')) \<and>
   calls (snd (installOperationHandlers example_host handlers_opts []
      (example_context [show_user_route, list_users_route]))) =
     [App_method ''get'' ''/users/:userId'' (JFun ''users.showUser'')]"
  by (simp add: example_defs claimed_handler_def list_users_route_def show_user_route_def)

text \<open>
  C7, at an input where the code departs from it. The module \<^verbatim>\<open>handlers/strings\<close>
  exports the empty string. For the route \<^verbatim>\<open>trim\<close> the read of line 267 finds the method
  every string has, so the empty string stays what is kept for the path, and the method is
  registered. The empty string is falsy: at the next route with the same path the test of
  line 265 succeeds again and \<^verbatim>\<open>require\<close> is called a second time with that path.
\<close>

theorem falsy_module_required_twice:
  "require example_host ''handlers/strings'' = Inr (JStr []) \<and>
   fst (installOperationHandlers example_host handlers_opts []
      (example_context [trim_route, upper_route])) = None \<and>
   calls (snd (installOperationHandlers example_host handlers_opts []
      (example_context [trim_route, upper_route]))) =
     [App_method ''get'' ''/trim'' (JFun ''String.prototype.trim''),
      App_method ''get'' ''/upper'' (JFun ''String.prototype.toUpperCase'')] \<and>
   required (snd (installOperationHandlers example_host handlers_opts []
      (example_context [trim_route, upper_route]))) =
     [''handlers/strings'', ''handlers/strings''] \<and>
   \<not> distinct (required (snd (installOperationHandlers example_host handlers_opts []
      (example_context [trim_route, upper_route]))))"
  by (simp add: example_defs trim_route_def upper_route_def)

text \<open>
  With modules of the usual kind, whose exports and default exports are truthy or are
  \<^verbatim>\<open>undefined\<close> or \<^verbatim>\<open>null\<close>, \<^verbatim>\<open>require\<close> is called at most once with each module path in
  one call of \<^verbatim>\<open>installOperationHandlers\<close>, whether the loop ends normally or throws:
  every path required keeps a truthy entry in \<^verbatim>\<open>tmpModules\<close> while the loop goes on.
\<close>

lemma usual_modules_required_at_most_once:
  assumes "usual_modules h"
  shows "distinct (required (snd (installOperationHandlers h options app context)))"
  unfolding installOperationHandlers_def
  by (rule install_routes_distinct [OF assms]) (simp add: memo_inv_def)

lemma usual_modules_example:
  "usual_modules (example_host\<lparr>require := (\<lambda>p. if p = ''handlers/pets'' then Inr pets_module
       else if p = ''handlers/users'' then Inr users_module
       else Inl (Error ''Cannot find module''))\<rparr>)"
  by (auto simp: usual_modules_def example_host_def pets_module_def users_module_def
      users_default_def split: if_splits)

end
